theory Spec2Isabelle
  imports Main
begin

section \<open>AutoSpotting: event dispatch and decision engine (core/main.go)\<close>

text \<open>
  A shallow embedding of \<^verbatim>\<open>core/main.go\<close>. The Go methods keep their names. What the
  file calls but does not define (the JSON decoder, the event-detail parsers, the region
  and instance methods, the EC2 client) is taken as a parameter: the collaborators whose
  results the code inspects are fields of the records \<open>parsers\<close> and \<open>services\<close>, and
  the collaborators the code only invokes are recorded, in call order, as effects.
  Writes to the log sinks (\<^verbatim>\<open>log\<close>, \<^verbatim>\<open>logger\<close>, \<^verbatim>\<open>debug\<close>) are not part of the modelled
  state. A Go \<^verbatim>\<open>error\<close> is represented by its message; \<open>None\<close> is \<^verbatim>\<open>nil\<close>.
\<close>

subsection \<open>Data\<close>

type_synonym error = string

text \<open>The fields of \<^verbatim>\<open>Config\<close> that main.go reads or writes.\<close>

record Config =
  TagFilteringMode :: string
  FilterByTags :: string
  TerminationNotificationAction :: string

text \<open>
  \<^verbatim>\<open>events.SNSEvent\<close> and \<^verbatim>\<open>events.CloudWatchEvent\<close>, with the fields main.go uses.
  \<open>Records\<close> is a Go slice: \<open>None\<close> is the nil slice, \<open>Some []\<close> an empty one.
\<close>

record SNSEntity =
  Message :: string

record SNSEventRecord =
  SNS :: SNSEntity

record SNSEvent =
  Records :: "SNSEventRecord list option"

record CloudWatchEvent =
  DetailType :: string
  Region :: string
  Detail :: string

text \<open>\<^verbatim>\<open>ec2.Region\<close>: the name is a \<^verbatim>\<open>*string\<close>.\<close>

record ec2Region =
  RegionName :: "string option"

text \<open>
  The decoders. \<^verbatim>\<open>json.Unmarshal\<close> into an \<^verbatim>\<open>SNSEvent\<close> and into a
  \<^verbatim>\<open>CloudWatchEvent\<close> return the error (\<open>Inl\<close>) or the decoded value.
  \<^verbatim>\<open>getInstanceIDDueForTermination\<close> returns \<^verbatim>\<open>(*string, error)\<close> and
  \<^verbatim>\<open>parseEventData\<close> returns \<^verbatim>\<open>(*string, *string, error)\<close>.
\<close>

record parsers =
  unmarshalSNSEvent :: "string \<Rightarrow> error + SNSEvent"
  unmarshalCloudWatchEvent :: "string \<Rightarrow> error + CloudWatchEvent"
  getInstanceIDDueForTermination :: "CloudWatchEvent \<Rightarrow> string option \<times> error option"
  parseEventData :: "CloudWatchEvent \<Rightarrow> string option \<times> string option \<times> error option"

text \<open>
  The cloud-side collaborators whose results main.go inspects. \<open>'i\<close> is the type of a
  scanned instance. \<open>enabled\<close> is \<^verbatim>\<open>region.enabled\<close>, by region name (it reads the region
  allow-list of the configuration, which nothing in main.go writes). \<open>scanInstance\<close> and
  \<open>instances_get\<close> take the region name and the instance ID.
\<close>

record 'i services =
  DescribeRegions :: "error + ec2Region option list"
  enabled :: "string \<Rightarrow> bool"
  scanInstance :: "string \<Rightarrow> string \<Rightarrow> error option"
  instances_get :: "string \<Rightarrow> string \<Rightarrow> 'i option"
  belongsToEnabledASG :: "'i \<Rightarrow> bool"
  shouldBeReplacedWithSpot :: "'i \<Rightarrow> bool"
  isUnattachedSpotInstanceLaunchedForAnEnabledASG :: "'i \<Rightarrow> bool"
  launchSpotReplacement :: "'i \<Rightarrow> error option"
  swapWithGroupMember :: "'i \<Rightarrow> error option"

text \<open>
  The calls main.go makes for their effect. \<open>Goroutine r es\<close> is the goroutine
  \<^verbatim>\<open>processRegions\<close> starts for region \<open>r\<close>, with the effects of its body; the
  goroutines run concurrently, so no order between the effects of two of them is meant.
\<close>

datatype 'i effect =
    Connect string
  | SetupAsgFilters string
  | ScanForEnabledAutoScalingGroups string
  | DetermineInstanceTypeInformation string
  | ScanInstance string string
  | CallLaunchSpotReplacement 'i
  | CallSwapWithGroupMember 'i
  | ExecuteAction string string string
  | ProcessRegion string
  | Goroutine string "'i effect list"

text \<open>The state main.go works on: \<^verbatim>\<open>a.config\<close> (a pointer, written by the defaults) and the effects so far.\<close>

record 'i world =
  config :: Config
  trace :: "'i effect list"

datatype panic = IndexOutOfRange | NilDereference

datatype 'a outcome = Returns 'a | Panics panic

definition emit :: "'i effect list \<Rightarrow> 'i world \<Rightarrow> 'i world" where
  "emit es w = w\<lparr>trace := trace w @ es\<rparr>"

subsection \<open>strings.TrimSpace\<close>

text \<open>
  \<^verbatim>\<open>strings.TrimSpace\<close> removes the leading and the trailing runes that
  \<^verbatim>\<open>unicode.IsSpace\<close> accepts. A Go string is a byte sequence read as UTF-8, so the
  white space runes are given by their encodings: the six ASCII bytes, U+0085 and U+00A0
  (two bytes), and U+1680, U+2000 to U+200A, U+2028, U+2029, U+202F, U+205F, U+3000 (three
  bytes). Any other byte sequence, also an invalid or overlong one, decodes to a rune that
  is not white space and stops the trimming.
\<close>

definition asciiSpace :: "char \<Rightarrow> bool" where
  "asciiSpace c = (c = CHR 0x09 \<or> c = CHR 0x0A \<or> c = CHR 0x0B \<or> c = CHR 0x0C \<or> c = CHR 0x0D \<or> c = CHR 0x20)"

definition space2 :: "char \<Rightarrow> char \<Rightarrow> bool" where
  "space2 c d = (c = CHR 0xC2 \<and> (d = CHR 0x85 \<or> d = CHR 0xA0))"

definition space3 :: "char \<Rightarrow> char \<Rightarrow> char \<Rightarrow> bool" where
  "space3 c d e =
     ((c = CHR 0xE1 \<and> d = CHR 0x9A \<and> e = CHR 0x80) \<or>
      (c = CHR 0xE2 \<and> d = CHR 0x80 \<and> (0x80 \<le> (of_char e :: nat) \<and> (of_char e :: nat) \<le> 0x8A)) \<or>
      (c = CHR 0xE2 \<and> d = CHR 0x80 \<and> (e = CHR 0xA8 \<or> e = CHR 0xA9 \<or> e = CHR 0xAF)) \<or>
      (c = CHR 0xE2 \<and> d = CHR 0x81 \<and> e = CHR 0x9F) \<or>
      (c = CHR 0xE3 \<and> d = CHR 0x80 \<and> e = CHR 0x80))"

text \<open>Trimming on the left: drop white space runes while the string starts with one.\<close>

fun trimLeft :: "string \<Rightarrow> string" where
  "trimLeft [] = []"
| "trimLeft [c] = (if asciiSpace c then [] else [c])"
| "trimLeft [c, d] =
     (if asciiSpace c then trimLeft [d]
      else if space2 c d then [] else [c, d])"
| "trimLeft (c # d # e # s) =
     (if asciiSpace c then trimLeft (d # e # s)
      else if space2 c d then trimLeft (e # s)
      else if space3 c d e then trimLeft s
      else c # d # e # s)"

text \<open>
  Trimming on the right, on the reversed string: the last rune is read backwards, so the
  bytes of an encoding arrive last byte first.
\<close>

fun trimLeftRev :: "string \<Rightarrow> string" where
  "trimLeftRev [] = []"
| "trimLeftRev [c] = (if asciiSpace c then [] else [c])"
| "trimLeftRev [d, c] =
     (if asciiSpace d then trimLeftRev [c]
      else if space2 c d then [] else [d, c])"
| "trimLeftRev (e # d # c # s) =
     (if asciiSpace e then trimLeftRev (d # c # s)
      else if space2 d e then trimLeftRev (c # s)
      else if space3 c d e then trimLeftRev s
      else e # d # c # s)"

definition trimRight :: "string \<Rightarrow> string" where
  "trimRight s = rev (trimLeftRev (rev s))"

definition TrimSpace :: "string \<Rightarrow> string" where
  "TrimSpace s = trimRight (trimLeft s)"

text \<open>
  The specification's word for the test: a string is blank when it is empty or consists of
  white space runes only. \<open>spaceRunes\<close> is the set of the encodings of the white space
  runes, and \<open>blank s\<close> holds when \<open>s\<close> splits into such encodings
  (lemma \<open>blank_iff_concat\<close> below).
\<close>

definition spaceRunes :: "string set" where
  "spaceRunes =
     {[c] | c. asciiSpace c} \<union> {[c, d] | c d. space2 c d} \<union> {[c, d, e] | c d e. space3 c d e}"

fun blank :: "string \<Rightarrow> bool" where
  "blank [] = True"
| "blank [c] = asciiSpace c"
| "blank [c, d] = ((asciiSpace c \<and> blank [d]) \<or> space2 c d)"
| "blank (c # d # e # s) =
     ((asciiSpace c \<and> blank (d # e # s)) \<or>
      (space2 c d \<and> blank (e # s)) \<or>
      (space3 c d e \<and> blank s))"

subsection \<open>Configuration defaults\<close>

definition addDefaultFilteringMode :: "Config \<Rightarrow> Config" where
  "addDefaultFilteringMode cfg =
     (if TagFilteringMode cfg \<noteq> ''opt-out''
      then cfg\<lparr>TagFilteringMode := ''opt-in''\<rparr>
      else cfg)"

definition addDefaultFilter :: "Config \<Rightarrow> Config" where
  "addDefaultFilter cfg =
     (if length (TrimSpace (FilterByTags cfg)) = 0
      then (if TagFilteringMode cfg = ''opt-out''
            then cfg\<lparr>FilterByTags := ''spot-enabled=false''\<rparr>
            else cfg\<lparr>FilterByTags := ''spot-enabled=true''\<rparr>)
      else cfg)"

subsection \<open>The periodic scan\<close>

text \<open>\<^verbatim>\<open>getRegions\<close>: the loop appends the name of every region that has one.\<close>

fun regionNames :: "ec2Region option list \<Rightarrow> string list \<Rightarrow> string list" where
  "regionNames [] output = output"
| "regionNames (r # rs) output =
     (case r of
        None \<Rightarrow> regionNames rs output
      | Some reg \<Rightarrow>
          (case RegionName reg of
             None \<Rightarrow> regionNames rs output
           | Some name \<Rightarrow> regionNames rs (output @ [name])))"

definition getRegions :: "'i services \<Rightarrow> error + string list" where
  "getRegions sv =
     (case DescribeRegions sv of
        Inl err \<Rightarrow> Inl err
      | Inr regions \<Rightarrow> Inr (regionNames regions []))"

text \<open>\<^verbatim>\<open>processRegions\<close>: one goroutine for each region, then the wait for all of them.\<close>

definition regionWorker :: "'i services \<Rightarrow> string \<Rightarrow> 'i effect list" where
  "regionWorker sv r = (if enabled sv r then [ProcessRegion r] else [])"

fun processRegions :: "'i services \<Rightarrow> string list \<Rightarrow> 'i world \<Rightarrow> 'i world" where
  "processRegions sv [] w = w"
| "processRegions sv (r # rs) w = processRegions sv rs (emit [Goroutine r (regionWorker sv r)] w)"

definition ProcessCronEvent :: "'i services \<Rightarrow> 'i world \<Rightarrow> 'i world" where
  "ProcessCronEvent sv w =
     (let w1 = w\<lparr>config := addDefaultFilter (addDefaultFilteringMode (config w))\<rparr>
      in case getRegions sv of
           Inl err \<Rightarrow> w1
         | Inr allRegions \<Rightarrow> processRegions sv allRegions w1)"

subsection \<open>The single-event path\<close>

text \<open>Lines 277 to 298 of \<^verbatim>\<open>handleNewInstanceLaunch\<close>: the instance in state running.\<close>

definition swapIfRunning :: "'i services \<Rightarrow> 'i \<Rightarrow> string \<Rightarrow> 'i world \<Rightarrow> error option \<times> 'i world" where
  "swapIfRunning sv i state w =
     (if state = ''running''
      then (if \<not> isUnattachedSpotInstanceLaunchedForAnEnabledASG sv i
            then (None, w)
            else (case swapWithGroupMember sv i of
                    Some err \<Rightarrow> (Some err, emit [CallSwapWithGroupMember i] w)
                  | None \<Rightarrow> (None, emit [CallSwapWithGroupMember i] w)))
      else (None, w))"

definition scanSteps :: "string \<Rightarrow> string \<Rightarrow> 'i effect list" where
  "scanSteps regionName instanceID =
     [Connect regionName, SetupAsgFilters regionName,
      ScanForEnabledAutoScalingGroups regionName,
      DetermineInstanceTypeInformation regionName,
      ScanInstance regionName instanceID]"

definition handleNewInstanceLaunch ::
  "'i services \<Rightarrow> string \<Rightarrow> string \<Rightarrow> string \<Rightarrow> 'i world \<Rightarrow> error option \<times> 'i world" where
  "handleNewInstanceLaunch sv regionName instanceID state w =
     (if \<not> enabled sv regionName
      then (Some (''region '' @ regionName @ '' is not enabled''), w)
      else
        let w1 = emit (scanSteps regionName instanceID) w in
        case scanInstance sv regionName instanceID of
          Some err \<Rightarrow> (Some err, w1)
        | None \<Rightarrow>
            (case instances_get sv regionName instanceID of
               None \<Rightarrow> (Some ''instance missing'', w1)
             | Some i \<Rightarrow>
                 if state = ''pending'' \<and> belongsToEnabledASG sv i \<and> shouldBeReplacedWithSpot sv i
                 then (case launchSpotReplacement sv i of
                         Some err \<Rightarrow> (Some err, emit [CallLaunchSpotReplacement i] w1)
                       | None \<Rightarrow> swapIfRunning sv i state (emit [CallLaunchSpotReplacement i] w1))
                 else swapIfRunning sv i state w1))"

subsection \<open>The dispatch entry point\<close>

text \<open>
  Lines 193 to 197 of \<^verbatim>\<open>EventHandler\<close>: the payload the second decoding works on.
  \<^verbatim>\<open>snsEvent.Records[0]\<close> on an empty slice is a run-time panic.
\<close>

definition unwrapSNS :: "SNSEvent \<Rightarrow> string \<Rightarrow> string outcome" where
  "unwrapSNS snsEvent parseEvent =
     (case Records snsEvent of
        None \<Rightarrow> Returns parseEvent
      | Some [] \<Rightarrow> Panics IndexOutOfRange
      | Some (snsRecord # _) \<Rightarrow> Returns (Message (SNS snsRecord)))"

text \<open>Lines 199 to 231: decoding the working payload and acting on its \<^verbatim>\<open>DetailType\<close>.\<close>

definition dispatchEvent ::
  "parsers \<Rightarrow> 'i services \<Rightarrow> string \<Rightarrow> 'i world \<Rightarrow> unit outcome \<times> 'i world" where
  "dispatchEvent ps sv parseEvent w =
     (case unmarshalCloudWatchEvent ps parseEvent of
        Inl err \<Rightarrow> (Returns (), w)
      | Inr cloudwatchEvent \<Rightarrow>
          if DetailType cloudwatchEvent = ''EC2 Spot Instance Interruption Warning''
          then (case getInstanceIDDueForTermination ps cloudwatchEvent of
                  (_, Some err) \<Rightarrow> (Returns (), w)
                | (None, None) \<Rightarrow> (Returns (), w)
                | (Some instanceID, None) \<Rightarrow>
                    (Returns (),
                     emit [ExecuteAction (Region cloudwatchEvent) instanceID
                             (TerminationNotificationAction (config w))] w))
          else if DetailType cloudwatchEvent = ''EC2 Instance State-change Notification''
          then (case parseEventData ps cloudwatchEvent of
                  (_, _, Some err) \<Rightarrow> (Returns (), w)
                | (None, _, None) \<Rightarrow> (Returns (), w)
                | (Some instanceID, None, None) \<Rightarrow> (Panics NilDereference, w)
                | (Some instanceID, Some state, None) \<Rightarrow>
                    (Returns (),
                     snd (handleNewInstanceLaunch sv (Region cloudwatchEvent) instanceID state w)))
          else (Returns (), ProcessCronEvent sv w))"

definition EventHandler ::
  "parsers \<Rightarrow> 'i services \<Rightarrow> string option \<Rightarrow> 'i world \<Rightarrow> unit outcome \<times> 'i world" where
  "EventHandler ps sv event w =
     (case event of
        None \<Rightarrow> (Returns (), ProcessCronEvent sv w)
      | Some parseEvent \<Rightarrow>
          (case unmarshalSNSEvent ps parseEvent of
             Inl err \<Rightarrow> (Returns (), w)
           | Inr snsEvent \<Rightarrow>
               (case unwrapSNS snsEvent parseEvent of
                  Panics p \<Rightarrow> (Panics p, w)
                | Returns parseEvent' \<Rightarrow> dispatchEvent ps sv parseEvent' w)))"

subsection \<open>A sample environment\<close>

text \<open>
  Concrete payloads, decoders and services, used to evaluate the definitions. The sample
  decoders answer on the payloads below as \<^verbatim>\<open>json.Unmarshal\<close> does: text that is not
  JSON is an error, and a JSON object without a \<^verbatim>\<open>Records\<close> key decodes to an
  \<^verbatim>\<open>SNSEvent\<close> with a nil record slice.
\<close>

definition payloadNotJSON :: string where
  "payloadNotJSON = ''not json''"

definition payloadEmptyEnvelope :: string where
  \<open>payloadEmptyEnvelope = ''{"Records":[]}''\<close>

definition payloadEnvelopeNotJSON :: string where
  \<open>payloadEnvelopeNotJSON = ''{"Records":[{"Sns":{"Message":"not json"}}]}''\<close>

definition payloadStateChange :: string where
  \<open>payloadStateChange =
     ''{"detail-type":"EC2 Instance State-change Notification","region":"us-east-1","detail":{"instance-id":"i-0456","state":"pending"}}''\<close>

definition payloadScheduled :: string where
  \<open>payloadScheduled = ''{"detail-type":"Scheduled Event","region":"us-east-1","detail":{}}''\<close>

text \<open>
  An envelope of two records. The first message is \<open>payloadScheduled\<close>, with its double
  quotes escaped as JSON requires (\<open>bq\<close> is a backslash and a double quote).
\<close>

definition bq :: string where
  "bq = [CHR 0x5C, CHR 0x22]"

definition payloadEnvelopeTwo :: string where
  \<open>payloadEnvelopeTwo =
     ''{"Records":[{"Sns":{"Message":"{'' @ bq @ ''detail-type'' @ bq @ '':'' @ bq @
     ''Scheduled Event'' @ bq @ '','' @ bq @ ''region'' @ bq @ '':'' @ bq @ ''us-east-1'' @ bq @
     '','' @ bq @ ''detail'' @ bq @ '':{}}"}},{"Sns":{"Message":"not json"}}]}''\<close>

definition detailStateChange :: string where
  \<open>detailStateChange = ''{"instance-id":"i-0456","state":"pending"}''\<close>

definition exampleParsers :: parsers where
  "exampleParsers =
     \<lparr>unmarshalSNSEvent = (\<lambda>p.
        if p = payloadNotJSON then Inl ''json: syntax error''
        else if p = payloadEmptyEnvelope then Inr \<lparr>Records = Some []\<rparr>
        else if p = payloadEnvelopeNotJSON
          then Inr \<lparr>Records = Some [\<lparr>SNS = \<lparr>Message = ''not json''\<rparr>\<rparr>]\<rparr>
        else if p = payloadEnvelopeTwo
          then Inr \<lparr>Records = Some [\<lparr>SNS = \<lparr>Message = payloadScheduled\<rparr>\<rparr>,
                                     \<lparr>SNS = \<lparr>Message = ''not json''\<rparr>\<rparr>]\<rparr>
        else Inr \<lparr>Records = None\<rparr>),
      unmarshalCloudWatchEvent = (\<lambda>p.
        if p = payloadStateChange
          then Inr \<lparr>DetailType = ''EC2 Instance State-change Notification'',
                    Region = ''us-east-1'', Detail = detailStateChange\<rparr>
        else if p = payloadScheduled
          then Inr \<lparr>DetailType = ''Scheduled Event'', Region = ''us-east-1'', Detail = ''{}''\<rparr>
        else Inl ''json: syntax error''),
      getInstanceIDDueForTermination = (\<lambda>e. (None, Some ''unexpected end of JSON input'')),
      parseEventData = (\<lambda>e.
        if Detail e = detailStateChange then (Some ''i-0456'', Some ''pending'', None)
        else (None, None, Some ''no instance id found''))\<rparr>"

text \<open>The sample services: an instance is its ID; only us-east-1 is enabled.\<close>

definition exampleServices :: "string services" where
  "exampleServices =
     \<lparr>DescribeRegions =
        Inr [Some \<lparr>RegionName = Some ''us-east-1''\<rparr>, None,
             Some \<lparr>RegionName = None\<rparr>, Some \<lparr>RegionName = Some ''eu-west-1''\<rparr>],
      enabled = (\<lambda>r. r = ''us-east-1''),
      scanInstance = (\<lambda>r i. None),
      instances_get = (\<lambda>r i. Some i),
      belongsToEnabledASG = (\<lambda>i. True),
      shouldBeReplacedWithSpot = (\<lambda>i. True),
      isUnattachedSpotInstanceLaunchedForAnEnabledASG = (\<lambda>i. True),
      launchSpotReplacement = (\<lambda>i. None),
      swapWithGroupMember = (\<lambda>i. None)\<rparr>"

definition exampleConfig :: Config where
  "exampleConfig =
     \<lparr>TagFilteringMode = [], FilterByTags = [], TerminationNotificationAction = ''auto''\<rparr>"

definition exampleWorld :: "string world" where
  "exampleWorld = \<lparr>config = exampleConfig, trace = []\<rparr>"

section \<open>Properties\<close>

subsection \<open>Blank strings and TrimSpace\<close>

lemma asciiSpace_not_space2: "asciiSpace c \<Longrightarrow> \<not> space2 c d"
  by (auto simp: asciiSpace_def space2_def)

lemma asciiSpace_not_space3: "asciiSpace c \<Longrightarrow> \<not> space3 c d e"
  by (auto simp: asciiSpace_def space3_def)

lemma space2_not_space3: "space2 c d \<Longrightarrow> \<not> space3 c d e"
  by (auto simp: space2_def space3_def)

lemma trimLeft_Nil_iff: "(trimLeft s = []) = blank s"
  by (induction s rule: trimLeft.induct)
     (auto simp: asciiSpace_not_space2 asciiSpace_not_space3 space2_not_space3)

lemma trimLeft_idem: "trimLeft (trimLeft s) = trimLeft s"
  by (induction s rule: trimLeft.induct) auto

lemma blank_ascii: "asciiSpace c \<Longrightarrow> blank s \<Longrightarrow> blank (c # s)"
  by (cases s rule: trimLeft.cases) auto

lemma blank_space2: "space2 c d \<Longrightarrow> blank s \<Longrightarrow> blank (c # d # s)"
  by (cases s) auto

lemma blank_rune: "w \<in> spaceRunes \<Longrightarrow> blank s \<Longrightarrow> blank (w @ s)"
  by (auto simp: spaceRunes_def blank_ascii blank_space2)

lemma blank_concat: "set ws \<subseteq> spaceRunes \<Longrightarrow> blank (concat ws)"
  by (induction ws) (auto simp: blank_rune)

lemma blank_splits: "blank s \<Longrightarrow> \<exists>ws. s = concat ws \<and> set ws \<subseteq> spaceRunes"
proof (induction s rule: blank.induct)
  case 1
  have "[] = concat [] \<and> set ([] :: string list) \<subseteq> spaceRunes" by simp
  then show ?case by blast
next
  case (2 c)
  then have "[c] = concat [[c]] \<and> set [[c]] \<subseteq> spaceRunes"
    by (simp add: spaceRunes_def)
  then show ?case by blast
next
  case (3 c d)
  show ?case
  proof (cases "space2 c d")
    case True
    then have "[c, d] = concat [[c, d]] \<and> set [[c, d]] \<subseteq> spaceRunes"
      by (simp add: spaceRunes_def)
    then show ?thesis by blast
  next
    case False
    with 3 have "[c, d] = concat [[c], [d]] \<and> set [[c], [d]] \<subseteq> spaceRunes"
      by (simp add: spaceRunes_def)
    then show ?thesis by blast
  qed
next
  case (4 c d e s)
  from "4.prems" consider
      (one) "asciiSpace c" "blank (d # e # s)"
    | (two) "space2 c d" "blank (e # s)"
    | (three) "space3 c d e" "blank s"
    by auto
  then show ?case
  proof cases
    case one
    with "4.IH"(1) obtain ws where "d # e # s = concat ws" "set ws \<subseteq> spaceRunes"
      by blast
    with one have "c # d # e # s = concat ([c] # ws) \<and> set ([c] # ws) \<subseteq> spaceRunes"
      by (simp add: spaceRunes_def)
    then show ?thesis by blast
  next
    case two
    with "4.IH"(2) obtain ws where "e # s = concat ws" "set ws \<subseteq> spaceRunes"
      by blast
    with two have "c # d # e # s = concat ([c, d] # ws) \<and> set ([c, d] # ws) \<subseteq> spaceRunes"
      by (simp add: spaceRunes_def)
    then show ?thesis by blast
  next
    case three
    with "4.IH"(3) obtain ws where "s = concat ws" "set ws \<subseteq> spaceRunes"
      by blast
    with three have "c # d # e # s = concat ([c, d, e] # ws) \<and> set ([c, d, e] # ws) \<subseteq> spaceRunes"
      by (simp add: spaceRunes_def)
    then show ?thesis by blast
  qed
qed

lemma blank_iff_concat: "blank s = (\<exists>ws. s = concat ws \<and> set ws \<subseteq> spaceRunes)"
  using blank_splits blank_concat by blast

text \<open>What the backwards trimming removes entirely is a sequence of white space runes.\<close>

lemma trimLeftRev_Nil:
  "trimLeftRev u = [] \<Longrightarrow> \<exists>ws. rev u = concat ws \<and> set ws \<subseteq> spaceRunes"
proof (induction u rule: trimLeftRev.induct)
  case 1
  have "rev [] = concat [] \<and> set ([] :: string list) \<subseteq> spaceRunes" by simp
  then show ?case by blast
next
  case (2 c)
  then have "asciiSpace c" by (simp split: if_splits)
  then have "rev [c] = concat [[c]] \<and> set [[c]] \<subseteq> spaceRunes"
    by (simp add: spaceRunes_def)
  then show ?case by blast
next
  case (3 d c)
  show ?case
  proof (cases "asciiSpace d")
    case True
    with 3 have "asciiSpace c" by (simp split: if_splits)
    with True have "rev [d, c] = concat [[c], [d]] \<and> set [[c], [d]] \<subseteq> spaceRunes"
      by (simp add: spaceRunes_def)
    then show ?thesis by blast
  next
    case False
    with 3 have "space2 c d" by (simp split: if_splits)
    then have "rev [d, c] = concat [[c, d]] \<and> set [[c, d]] \<subseteq> spaceRunes"
      by (simp add: spaceRunes_def)
    then show ?thesis by blast
  qed
next
  case (4 e d c s)
  from "4.prems" consider
      (one) "asciiSpace e" "trimLeftRev (d # c # s) = []"
    | (two) "\<not> asciiSpace e" "space2 d e" "trimLeftRev (c # s) = []"
    | (three) "\<not> asciiSpace e" "\<not> space2 d e" "space3 c d e" "trimLeftRev s = []"
    by (auto split: if_splits)
  then show ?case
  proof cases
    case one
    with "4.IH"(1) obtain ws where "rev (d # c # s) = concat ws" "set ws \<subseteq> spaceRunes"
      by blast
    with one have "rev (e # d # c # s) = concat (ws @ [[e]]) \<and> set (ws @ [[e]]) \<subseteq> spaceRunes"
      by (simp add: spaceRunes_def)
    then show ?thesis by blast
  next
    case two
    with "4.IH"(2) obtain ws where "rev (c # s) = concat ws" "set ws \<subseteq> spaceRunes"
      by blast
    with two have "rev (e # d # c # s) = concat (ws @ [[d, e]]) \<and> set (ws @ [[d, e]]) \<subseteq> spaceRunes"
      by (simp add: spaceRunes_def)
    then show ?thesis by blast
  next
    case three
    with "4.IH"(3) obtain ws where "rev s = concat ws" "set ws \<subseteq> spaceRunes"
      by blast
    with three have
      "rev (e # d # c # s) = concat (ws @ [[c, d, e]]) \<and> set (ws @ [[c, d, e]]) \<subseteq> spaceRunes"
      by (simp add: spaceRunes_def)
    then show ?thesis by blast
  qed
qed

lemma trimRight_Nil: "trimRight t = [] \<Longrightarrow> blank t"
proof -
  assume "trimRight t = []"
  then have "trimLeftRev (rev t) = []" by (simp add: trimRight_def)
  then obtain ws where "rev (rev t) = concat ws" "set ws \<subseteq> spaceRunes"
    using trimLeftRev_Nil by blast
  then show "blank t" using blank_concat by simp
qed

lemma TrimSpace_Nil_iff: "(TrimSpace s = []) = blank s"
proof
  assume "TrimSpace s = []"
  then have "blank (trimLeft s)" by (simp add: TrimSpace_def trimRight_Nil)
  then have "trimLeft (trimLeft s) = []" by (simp add: trimLeft_Nil_iff)
  then show "blank s" by (simp add: trimLeft_idem trimLeft_Nil_iff)
next
  assume "blank s"
  then have "trimLeft s = []" by (simp add: trimLeft_Nil_iff)
  then show "TrimSpace s = []" by (simp add: TrimSpace_def trimRight_def)
qed

lemma TrimSpace_examples:
  "TrimSpace [CHR 0x20, CHR ''a'', CHR 0x20, CHR ''b'', CHR 0x09] = ''a b''"
  "TrimSpace [CHR 0xE2, CHR 0x80, CHR 0x83, CHR ''x'', CHR 0xC2, CHR 0xA0, CHR 0x0A] = ''x''"
  "TrimSpace [CHR 0x80, CHR 0x20] = [CHR 0x80]"
  by (simp_all add: TrimSpace_def trimRight_def asciiSpace_def space2_def space3_def)

subsection \<open>Configuration defaults\<close>

text \<open>
  Claim C7. After \<^verbatim>\<open>addDefaultFilteringMode\<close>, the tag-filtering mode is exactly
  "opt-out" when the configured value was the literal string "opt-out", and exactly
  "opt-in" for every other configured value, the empty one included. No other field of
  the configuration changes.
\<close>

theorem addDefaultFilteringMode_exact:
  "addDefaultFilteringMode cfg =
     cfg\<lparr>TagFilteringMode :=
           (if TagFilteringMode cfg = ''opt-out'' then ''opt-out'' else ''opt-in'')\<rparr>"
  by (simp add: addDefaultFilteringMode_def)

theorem addDefaultFilteringMode_exact_witness:
  "TagFilteringMode (addDefaultFilteringMode exampleConfig) = ''opt-in'' \<and>
   TagFilteringMode (addDefaultFilteringMode (exampleConfig\<lparr>TagFilteringMode := ''opt-out''\<rparr>)) = ''opt-out'' \<and>
   TagFilteringMode (addDefaultFilteringMode (exampleConfig\<lparr>TagFilteringMode := ''Opt-Out''\<rparr>)) = ''opt-in''"
  using addDefaultFilteringMode_exact [of exampleConfig]
    addDefaultFilteringMode_exact [of "exampleConfig\<lparr>TagFilteringMode := ''opt-out''\<rparr>"]
    addDefaultFilteringMode_exact [of "exampleConfig\<lparr>TagFilteringMode := ''Opt-Out''\<rparr>"]
  by (simp add: exampleConfig_def)

text \<open>
  Claim C8. After \<^verbatim>\<open>addDefaultFilter\<close>: a blank filter expression (empty, or white
  space only) becomes "spot-enabled=false" when the filtering mode is "opt-out" and
  "spot-enabled=true" otherwise; an expression that is not blank is left unchanged. The
  code's test is \<^verbatim>\<open>len(strings.TrimSpace(cfg.FilterByTags)) == 0\<close>; the theorem states
  it with \<open>blank\<close>.
\<close>

theorem addDefaultFilter_blank:
  "addDefaultFilter cfg =
     (if blank (FilterByTags cfg)
      then cfg\<lparr>FilterByTags :=
                 (if TagFilteringMode cfg = ''opt-out''
                  then ''spot-enabled=false'' else ''spot-enabled=true'')\<rparr>
      else cfg)"
  by (simp add: addDefaultFilter_def TrimSpace_Nil_iff)

theorem addDefaultFilter_blank_witness:
  "FilterByTags (addDefaultFilter
      (exampleConfig\<lparr>TagFilteringMode := ''opt-out'', FilterByTags := [CHR 0x20, CHR 0x09]\<rparr>))
     = ''spot-enabled=false'' \<and>
   FilterByTags (addDefaultFilter
      (exampleConfig\<lparr>TagFilteringMode := ''opt-in'', FilterByTags := [CHR 0xC2, CHR 0xA0]\<rparr>))
     = ''spot-enabled=true'' \<and>
   FilterByTags (addDefaultFilter exampleConfig) = ''spot-enabled=true'' \<and>
   FilterByTags (addDefaultFilter (exampleConfig\<lparr>FilterByTags := '' team=a ''\<rparr>)) = '' team=a ''"
  using
    addDefaultFilter_blank
      [of "exampleConfig\<lparr>TagFilteringMode := ''opt-out'', FilterByTags := [CHR 0x20, CHR 0x09]\<rparr>"]
    addDefaultFilter_blank
      [of "exampleConfig\<lparr>TagFilteringMode := ''opt-in'', FilterByTags := [CHR 0xC2, CHR 0xA0]\<rparr>"]
    addDefaultFilter_blank [of exampleConfig]
    addDefaultFilter_blank [of "exampleConfig\<lparr>FilterByTags := '' team=a ''\<rparr>"]
  by (simp add: exampleConfig_def asciiSpace_def space2_def space3_def)

subsection \<open>The periodic scan\<close>

lemma processRegions_config: "config (processRegions sv rs w) = config w"
  by (induction rs arbitrary: w) (simp_all add: emit_def)

lemma processRegions_trace:
  "trace (processRegions sv rs w) = trace w @ map (\<lambda>r. Goroutine r (regionWorker sv r)) rs"
  by (induction rs arbitrary: w) (simp_all add: emit_def)

text \<open>
  Claim C4. When region enumeration fails (\<^verbatim>\<open>DescribeRegions\<close> returns an error),
  \<^verbatim>\<open>getRegions\<close> returns that error and \<^verbatim>\<open>ProcessCronEvent\<close> ends with no region
  processed: no goroutine is started and no effect is recorded; only the configuration
  defaults have been applied.
\<close>

theorem ProcessCronEvent_enumeration_fails:
  assumes "DescribeRegions sv = Inl err"
  shows "getRegions sv = Inl err \<and>
         trace (ProcessCronEvent sv w) = trace w \<and>
         ProcessCronEvent sv w =
           w\<lparr>config := addDefaultFilter (addDefaultFilteringMode (config w))\<rparr>"
  using assms by (simp add: ProcessCronEvent_def getRegions_def)

theorem ProcessCronEvent_enumeration_fails_witness:
  "DescribeRegions (exampleServices\<lparr>DescribeRegions := Inl ''RequestError''\<rparr>) = Inl ''RequestError'' \<and>
   trace (ProcessCronEvent (exampleServices\<lparr>DescribeRegions := Inl ''RequestError''\<rparr>) exampleWorld) = [] \<and>
   trace (ProcessCronEvent exampleServices exampleWorld) =
     [Goroutine ''us-east-1'' [ProcessRegion ''us-east-1''], Goroutine ''eu-west-1'' []]"
  using ProcessCronEvent_enumeration_fails
    [of "exampleServices\<lparr>DescribeRegions := Inl ''RequestError''\<rparr>" "''RequestError''" exampleWorld]
  by (simp add: exampleServices_def exampleWorld_def ProcessCronEvent_def getRegions_def
      regionWorker_def emit_def)

subsection \<open>The single-event path\<close>

lemma handleNewInstanceLaunch_found:
  assumes "enabled sv r" "scanInstance sv r iid = None" "instances_get sv r iid = Some i"
  shows "handleNewInstanceLaunch sv r iid state w =
     (if state = ''pending'' \<and> belongsToEnabledASG sv i \<and> shouldBeReplacedWithSpot sv i
      then (case launchSpotReplacement sv i of
              Some err \<Rightarrow> (Some err, emit [CallLaunchSpotReplacement i] (emit (scanSteps r iid) w))
            | None \<Rightarrow>
                swapIfRunning sv i state
                  (emit [CallLaunchSpotReplacement i] (emit (scanSteps r iid) w)))
      else swapIfRunning sv i state (emit (scanSteps r iid) w))"
  using assms by (simp add: handleNewInstanceLaunch_def Let_def)

lemma swapIfRunning_other:
  "state \<noteq> ''running'' \<Longrightarrow> swapIfRunning sv i state w = (None, w)"
  by (simp add: swapIfRunning_def)

lemma swapIfRunning_running:
  "swapIfRunning sv i ''running'' w =
     (if isUnattachedSpotInstanceLaunchedForAnEnabledASG sv i
      then (swapWithGroupMember sv i, emit [CallSwapWithGroupMember i] w)
      else (None, w))"
  by (cases "swapWithGroupMember sv i") (simp_all add: swapIfRunning_def)

text \<open>
  Claim C3. For an instance that reaches the decision of \<^verbatim>\<open>handleNewInstanceLaunch\<close>
  (the region is enabled, the scan succeeds and the instance is found), after the scan
  steps: in state "pending" with \<^verbatim>\<open>belongsToEnabledASG\<close> and
  \<^verbatim>\<open>shouldBeReplacedWithSpot\<close> the one action is \<^verbatim>\<open>launchSpotReplacement\<close>; in state
  "pending" with one of them false there is no action; in state "running" with
  \<^verbatim>\<open>isUnattachedSpotInstanceLaunchedForAnEnabledASG\<close> the one action is
  \<^verbatim>\<open>swapWithGroupMember\<close>; in state "running" otherwise there is no action and no error;
  in any other state there is no action.
\<close>

theorem handleNewInstanceLaunch_decision:
  assumes "enabled sv r" "scanInstance sv r iid = None" "instances_get sv r iid = Some i"
  shows
    "(state = ''pending'' \<and> belongsToEnabledASG sv i \<and> shouldBeReplacedWithSpot sv i \<longrightarrow>
        trace (snd (handleNewInstanceLaunch sv r iid state w)) =
          trace w @ scanSteps r iid @ [CallLaunchSpotReplacement i]) \<and>
     (state = ''pending'' \<and> \<not> (belongsToEnabledASG sv i \<and> shouldBeReplacedWithSpot sv i) \<longrightarrow>
        handleNewInstanceLaunch sv r iid state w = (None, emit (scanSteps r iid) w)) \<and>
     (state = ''running'' \<and> isUnattachedSpotInstanceLaunchedForAnEnabledASG sv i \<longrightarrow>
        trace (snd (handleNewInstanceLaunch sv r iid state w)) =
          trace w @ scanSteps r iid @ [CallSwapWithGroupMember i]) \<and>
     (state = ''running'' \<and> \<not> isUnattachedSpotInstanceLaunchedForAnEnabledASG sv i \<longrightarrow>
        handleNewInstanceLaunch sv r iid state w = (None, emit (scanSteps r iid) w)) \<and>
     (state \<noteq> ''pending'' \<and> state \<noteq> ''running'' \<longrightarrow>
        handleNewInstanceLaunch sv r iid state w = (None, emit (scanSteps r iid) w))"
proof -
  note found = handleNewInstanceLaunch_found [OF assms]
  have pending_launch:
    "trace (snd (handleNewInstanceLaunch sv r iid state w)) =
       trace w @ scanSteps r iid @ [CallLaunchSpotReplacement i]"
    if "state = ''pending''" "belongsToEnabledASG sv i" "shouldBeReplacedWithSpot sv i"
    using that
    by (cases "launchSpotReplacement sv i")
       (simp_all add: found swapIfRunning_other emit_def)
  have pending_skip:
    "handleNewInstanceLaunch sv r iid state w = (None, emit (scanSteps r iid) w)"
    if "state = ''pending''" "\<not> (belongsToEnabledASG sv i \<and> shouldBeReplacedWithSpot sv i)"
    using that by (auto simp: found swapIfRunning_other)
  have running_swap:
    "trace (snd (handleNewInstanceLaunch sv r iid state w)) =
       trace w @ scanSteps r iid @ [CallSwapWithGroupMember i]"
    if "state = ''running''" "isUnattachedSpotInstanceLaunchedForAnEnabledASG sv i"
    using that by (simp add: found swapIfRunning_running emit_def)
  have running_attached:
    "handleNewInstanceLaunch sv r iid state w = (None, emit (scanSteps r iid) w)"
    if "state = ''running''" "\<not> isUnattachedSpotInstanceLaunchedForAnEnabledASG sv i"
    using that by (simp add: found swapIfRunning_running)
  have other:
    "handleNewInstanceLaunch sv r iid state w = (None, emit (scanSteps r iid) w)"
    if "state \<noteq> ''pending''" "state \<noteq> ''running''"
    using that by (simp add: found swapIfRunning_other)
  from pending_launch pending_skip running_swap running_attached other
  show ?thesis by blast
qed

theorem handleNewInstanceLaunch_decision_witness:
  "enabled exampleServices ''us-east-1'' \<and>
   scanInstance exampleServices ''us-east-1'' ''i-0456'' = None \<and>
   instances_get exampleServices ''us-east-1'' ''i-0456'' = Some ''i-0456'' \<and>
   trace (snd (handleNewInstanceLaunch exampleServices ''us-east-1'' ''i-0456'' ''pending'' exampleWorld)) =
     scanSteps ''us-east-1'' ''i-0456'' @ [CallLaunchSpotReplacement ''i-0456''] \<and>
   handleNewInstanceLaunch (exampleServices\<lparr>belongsToEnabledASG := (\<lambda>i. False)\<rparr>)
       ''us-east-1'' ''i-0456'' ''pending'' exampleWorld =
     (None, emit (scanSteps ''us-east-1'' ''i-0456'') exampleWorld) \<and>
   trace (snd (handleNewInstanceLaunch exampleServices ''us-east-1'' ''i-0456'' ''running'' exampleWorld)) =
     scanSteps ''us-east-1'' ''i-0456'' @ [CallSwapWithGroupMember ''i-0456''] \<and>
   handleNewInstanceLaunch
       (exampleServices\<lparr>isUnattachedSpotInstanceLaunchedForAnEnabledASG := (\<lambda>i. False)\<rparr>)
       ''us-east-1'' ''i-0456'' ''running'' exampleWorld =
     (None, emit (scanSteps ''us-east-1'' ''i-0456'') exampleWorld) \<and>
   handleNewInstanceLaunch exampleServices ''us-east-1'' ''i-0456'' ''stopped'' exampleWorld =
     (None, emit (scanSteps ''us-east-1'' ''i-0456'') exampleWorld)"
  using
    handleNewInstanceLaunch_decision
      [of exampleServices "''us-east-1''" "''i-0456''" "''i-0456''" "''pending''" exampleWorld]
    handleNewInstanceLaunch_decision
      [of "exampleServices\<lparr>belongsToEnabledASG := (\<lambda>i. False)\<rparr>"
          "''us-east-1''" "''i-0456''" "''i-0456''" "''pending''" exampleWorld]
    handleNewInstanceLaunch_decision
      [of exampleServices "''us-east-1''" "''i-0456''" "''i-0456''" "''running''" exampleWorld]
    handleNewInstanceLaunch_decision
      [of "exampleServices\<lparr>isUnattachedSpotInstanceLaunchedForAnEnabledASG := (\<lambda>i. False)\<rparr>"
          "''us-east-1''" "''i-0456''" "''i-0456''" "''running''" exampleWorld]
    handleNewInstanceLaunch_decision
      [of exampleServices "''us-east-1''" "''i-0456''" "''i-0456''" "''stopped''" exampleWorld]
  by (simp add: exampleServices_def exampleWorld_def)

text \<open>
  Claim C2, as amended. Every error of the single-event path (the region is disabled, the
  instance scan fails, the instance is not found, the launch or the swap fails) is the
  value \<^verbatim>\<open>handleNewInstanceLaunch\<close> returns to \<^verbatim>\<open>EventHandler\<close>.
  \<^verbatim>\<open>EventHandler\<close> has no result: on a state-change notification it returns normally,
  with the effects of \<^verbatim>\<open>handleNewInstanceLaunch\<close> and without its error.
\<close>

theorem handleNewInstanceLaunch_errors:
  "(\<not> enabled sv r \<longrightarrow>
      handleNewInstanceLaunch sv r iid state w =
        (Some (''region '' @ r @ '' is not enabled''), w)) \<and>
   (enabled sv r \<and> scanInstance sv r iid = Some err \<longrightarrow>
      fst (handleNewInstanceLaunch sv r iid state w) = Some err) \<and>
   (enabled sv r \<and> scanInstance sv r iid = None \<and> instances_get sv r iid = None \<longrightarrow>
      fst (handleNewInstanceLaunch sv r iid state w) = Some ''instance missing'') \<and>
   (enabled sv r \<and> scanInstance sv r iid = None \<and> instances_get sv r iid = Some i \<and>
    state = ''pending'' \<and> belongsToEnabledASG sv i \<and> shouldBeReplacedWithSpot sv i \<and>
    launchSpotReplacement sv i = Some err \<longrightarrow>
      fst (handleNewInstanceLaunch sv r iid state w) = Some err) \<and>
   (enabled sv r \<and> scanInstance sv r iid = None \<and> instances_get sv r iid = Some i \<and>
    state = ''running'' \<and> isUnattachedSpotInstanceLaunchedForAnEnabledASG sv i \<and>
    swapWithGroupMember sv i = Some err \<longrightarrow>
      fst (handleNewInstanceLaunch sv r iid state w) = Some err) \<and>
   (unmarshalSNSEvent ps p = Inr snsEvent \<and> unwrapSNS snsEvent p = Returns body \<and>
    unmarshalCloudWatchEvent ps body = Inr ev \<and>
    DetailType ev = ''EC2 Instance State-change Notification'' \<and>
    parseEventData ps ev = (Some iid, Some state, None) \<longrightarrow>
      EventHandler ps sv (Some p) w =
        (Returns (), snd (handleNewInstanceLaunch sv (Region ev) iid state w)))"
proof -
  have disabled:
    "handleNewInstanceLaunch sv r iid state w = (Some (''region '' @ r @ '' is not enabled''), w)"
    if "\<not> enabled sv r"
    using that by (simp add: handleNewInstanceLaunch_def)
  have scan: "fst (handleNewInstanceLaunch sv r iid state w) = Some err"
    if "enabled sv r" "scanInstance sv r iid = Some err"
    using that by (simp add: handleNewInstanceLaunch_def Let_def)
  have missing: "fst (handleNewInstanceLaunch sv r iid state w) = Some ''instance missing''"
    if "enabled sv r" "scanInstance sv r iid = None" "instances_get sv r iid = None"
    using that by (simp add: handleNewInstanceLaunch_def Let_def)
  have launch: "fst (handleNewInstanceLaunch sv r iid state w) = Some err"
    if "enabled sv r" "scanInstance sv r iid = None" "instances_get sv r iid = Some i"
      "state = ''pending''" "belongsToEnabledASG sv i" "shouldBeReplacedWithSpot sv i"
      "launchSpotReplacement sv i = Some err"
    using that by (simp add: handleNewInstanceLaunch_found)
  have swap: "fst (handleNewInstanceLaunch sv r iid state w) = Some err"
    if "enabled sv r" "scanInstance sv r iid = None" "instances_get sv r iid = Some i"
      "state = ''running''" "isUnattachedSpotInstanceLaunchedForAnEnabledASG sv i"
      "swapWithGroupMember sv i = Some err"
    using that by (simp add: handleNewInstanceLaunch_found swapIfRunning_running)
  have dropped:
    "EventHandler ps sv (Some p) w =
       (Returns (), snd (handleNewInstanceLaunch sv (Region ev) iid state w))"
    if "unmarshalSNSEvent ps p = Inr snsEvent" "unwrapSNS snsEvent p = Returns body"
      "unmarshalCloudWatchEvent ps body = Inr ev"
      "DetailType ev = ''EC2 Instance State-change Notification''"
      "parseEventData ps ev = (Some iid, Some state, None)"
    using that by (simp add: EventHandler_def dispatchEvent_def)
  from disabled scan missing launch swap dropped show ?thesis by blast
qed

theorem handleNewInstanceLaunch_errors_witness:
  "handleNewInstanceLaunch exampleServices ''eu-west-1'' ''i-0456'' ''pending'' exampleWorld =
     (Some ''region eu-west-1 is not enabled'', exampleWorld) \<and>
   fst (handleNewInstanceLaunch
          (exampleServices\<lparr>scanInstance := (\<lambda>r i. Some ''RequestError'')\<rparr>)
          ''us-east-1'' ''i-0456'' ''pending'' exampleWorld) = Some ''RequestError'' \<and>
   fst (handleNewInstanceLaunch
          (exampleServices\<lparr>instances_get := (\<lambda>r i. None)\<rparr>)
          ''us-east-1'' ''i-0456'' ''pending'' exampleWorld) = Some ''instance missing'' \<and>
   fst (handleNewInstanceLaunch
          (exampleServices\<lparr>launchSpotReplacement := (\<lambda>i. Some ''InsufficientInstanceCapacity'')\<rparr>)
          ''us-east-1'' ''i-0456'' ''pending'' exampleWorld) = Some ''InsufficientInstanceCapacity'' \<and>
   fst (handleNewInstanceLaunch
          (exampleServices\<lparr>swapWithGroupMember := (\<lambda>i. Some ''ValidationError'')\<rparr>)
          ''us-east-1'' ''i-0456'' ''running'' exampleWorld) = Some ''ValidationError'' \<and>
   EventHandler exampleParsers exampleServices (Some payloadStateChange) exampleWorld =
     (Returns (),
      snd (handleNewInstanceLaunch exampleServices ''us-east-1'' ''i-0456'' ''pending'' exampleWorld))"
  using
    handleNewInstanceLaunch_errors
      [where sv = exampleServices and r = "''eu-west-1''" and iid = "''i-0456''"
         and state = "''pending''" and w = exampleWorld]
    handleNewInstanceLaunch_errors
      [where sv = "exampleServices\<lparr>scanInstance := (\<lambda>r i. Some ''RequestError'')\<rparr>"
         and r = "''us-east-1''" and iid = "''i-0456''" and err = "''RequestError''"
         and state = "''pending''" and w = exampleWorld]
    handleNewInstanceLaunch_errors
      [where sv = "exampleServices\<lparr>instances_get := (\<lambda>r i. None)\<rparr>"
         and r = "''us-east-1''" and iid = "''i-0456''"
         and state = "''pending''" and w = exampleWorld]
    handleNewInstanceLaunch_errors
      [where sv = "exampleServices\<lparr>launchSpotReplacement := (\<lambda>i. Some ''InsufficientInstanceCapacity'')\<rparr>"
         and r = "''us-east-1''" and iid = "''i-0456''" and i = "''i-0456''"
         and err = "''InsufficientInstanceCapacity''"
         and state = "''pending''" and w = exampleWorld]
    handleNewInstanceLaunch_errors
      [where sv = "exampleServices\<lparr>swapWithGroupMember := (\<lambda>i. Some ''ValidationError'')\<rparr>"
         and r = "''us-east-1''" and iid = "''i-0456''" and i = "''i-0456''"
         and err = "''ValidationError''"
         and state = "''running''" and w = exampleWorld]
    handleNewInstanceLaunch_errors
      [where sv = exampleServices and ps = exampleParsers and p = payloadStateChange
         and snsEvent = "\<lparr>Records = None\<rparr>" and body = payloadStateChange
         and ev = "\<lparr>DetailType = ''EC2 Instance State-change Notification'',
                    Region = ''us-east-1'', Detail = detailStateChange\<rparr>"
         and iid = "''i-0456''" and state = "''pending''" and w = exampleWorld]
  by (simp add: exampleServices_def exampleParsers_def unwrapSNS_def payloadStateChange_def
      payloadNotJSON_def payloadEmptyEnvelope_def payloadEnvelopeNotJSON_def
      payloadEnvelopeTwo_def)

text \<open>
  Claim C2 as stated fails: \<^verbatim>\<open>EventHandler\<close> returns nothing to its caller. For the
  state-change notification of an instance in a region that is not enabled,
  \<^verbatim>\<open>handleNewInstanceLaunch\<close> returns an error and \<^verbatim>\<open>EventHandler\<close> returns normally,
  the state unchanged. When the launch fails, \<^verbatim>\<open>EventHandler\<close> returns exactly what it
  returns when the launch succeeds.
\<close>

theorem EventHandler_swallows_error_counterexample:
  "fst (handleNewInstanceLaunch (exampleServices\<lparr>enabled := (\<lambda>r. False)\<rparr>)
          ''us-east-1'' ''i-0456'' ''pending'' exampleWorld)
     = Some ''region us-east-1 is not enabled'' \<and>
   EventHandler exampleParsers (exampleServices\<lparr>enabled := (\<lambda>r. False)\<rparr>)
       (Some payloadStateChange) exampleWorld
     = (Returns (), exampleWorld) \<and>
   fst (handleNewInstanceLaunch
          (exampleServices\<lparr>launchSpotReplacement := (\<lambda>i. Some ''InsufficientInstanceCapacity'')\<rparr>)
          ''us-east-1'' ''i-0456'' ''pending'' exampleWorld)
     = Some ''InsufficientInstanceCapacity'' \<and>
   fst (handleNewInstanceLaunch exampleServices ''us-east-1'' ''i-0456'' ''pending'' exampleWorld)
     = None \<and>
   EventHandler exampleParsers
       (exampleServices\<lparr>launchSpotReplacement := (\<lambda>i. Some ''InsufficientInstanceCapacity'')\<rparr>)
       (Some payloadStateChange) exampleWorld
     = EventHandler exampleParsers exampleServices (Some payloadStateChange) exampleWorld"
  by (simp add: EventHandler_def dispatchEvent_def unwrapSNS_def handleNewInstanceLaunch_def
      swapIfRunning_def emit_def Let_def exampleServices_def exampleParsers_def
      payloadStateChange_def payloadNotJSON_def payloadEmptyEnvelope_def
      payloadEnvelopeNotJSON_def payloadEnvelopeTwo_def)

subsection \<open>The dispatch entry point\<close>

text \<open>
  Claim C9. Invoked with no payload (a nil \<^verbatim>\<open>event\<close>), \<^verbatim>\<open>EventHandler\<close> runs the
  periodic scan and returns. The result is that of \<^verbatim>\<open>ProcessCronEvent\<close> whatever the
  decoders are: nothing is parsed.
\<close>

theorem EventHandler_nil_is_cron:
  "EventHandler ps sv None w = (Returns (), ProcessCronEvent sv w)"
  by (simp add: EventHandler_def)

theorem EventHandler_nil_is_cron_witness:
  "EventHandler exampleParsers exampleServices None exampleWorld =
     (Returns (),
      \<lparr>config = exampleConfig\<lparr>TagFilteringMode := ''opt-in'', FilterByTags := ''spot-enabled=true''\<rparr>,
       trace = [Goroutine ''us-east-1'' [ProcessRegion ''us-east-1''], Goroutine ''eu-west-1'' []]\<rparr>)"
  using EventHandler_nil_is_cron [of exampleParsers exampleServices exampleWorld]
  by (simp add: ProcessCronEvent_def getRegions_def regionWorker_def emit_def
      addDefaultFilter_def addDefaultFilteringMode_def TrimSpace_def trimRight_def
      exampleServices_def exampleWorld_def exampleConfig_def)






text \<open>
  Claim C6. When the payload decodes as an envelope with at least one record,
  \<^verbatim>\<open>EventHandler\<close> goes on with the message of the first record as its working payload,
  and with nothing else of the envelope: two envelopes with the same first record are
  handled alike, whatever records follow.
\<close>

theorem EventHandler_first_record_only:
  assumes "unmarshalSNSEvent ps p = Inr snsEvent"
    and "Records snsEvent = Some (first # others)"
  shows "EventHandler ps sv (Some p) w = dispatchEvent ps sv (Message (SNS first)) w \<and>
         (\<forall>p' snsEvent' others'.
            unmarshalSNSEvent ps p' = Inr snsEvent' \<and> Records snsEvent' = Some (first # others')
            \<longrightarrow> EventHandler ps sv (Some p') w = EventHandler ps sv (Some p) w)"
  using assms by (simp add: EventHandler_def unwrapSNS_def)

theorem EventHandler_first_record_only_witness:
  "unmarshalSNSEvent exampleParsers payloadEnvelopeTwo =
     Inr \<lparr>Records = Some [\<lparr>SNS = \<lparr>Message = payloadScheduled\<rparr>\<rparr>,
                           \<lparr>SNS = \<lparr>Message = ''not json''\<rparr>\<rparr>]\<rparr> \<and>
   EventHandler exampleParsers exampleServices (Some payloadEnvelopeTwo) exampleWorld =
     dispatchEvent exampleParsers exampleServices payloadScheduled exampleWorld \<and>
   EventHandler exampleParsers exampleServices (Some payloadEnvelopeTwo) exampleWorld =
     (Returns (), ProcessCronEvent exampleServices exampleWorld)"
  using EventHandler_first_record_only
    [where ps = exampleParsers and p = payloadEnvelopeTwo
       and snsEvent = "\<lparr>Records = Some [\<lparr>SNS = \<lparr>Message = payloadScheduled\<rparr>\<rparr>,
                                          \<lparr>SNS = \<lparr>Message = ''not json''\<rparr>\<rparr>]\<rparr>"
       and first = "\<lparr>SNS = \<lparr>Message = payloadScheduled\<rparr>\<rparr>"
       and others = "[\<lparr>SNS = \<lparr>Message = ''not json''\<rparr>\<rparr>]"
       and sv = exampleServices and w = exampleWorld]
  by (simp add: exampleParsers_def dispatchEvent_def bq_def payloadStateChange_def
      payloadScheduled_def payloadNotJSON_def payloadEmptyEnvelope_def
      payloadEnvelopeNotJSON_def payloadEnvelopeTwo_def)

lemma dispatchEvent_no_index_panic:
  "fst (dispatchEvent ps sv p w) \<noteq> Panics IndexOutOfRange"
proof (cases "unmarshalCloudWatchEvent ps p")
  case (Inl err)
  then show ?thesis by (simp add: dispatchEvent_def)
next
  case (Inr ev)
  obtain a b where due: "getInstanceIDDueForTermination ps ev = (a, b)"
    by (cases "getInstanceIDDueForTermination ps ev")
  obtain i s e where parsed: "parseEventData ps ev = (i, s, e)"
    by (cases "parseEventData ps ev")
  show ?thesis
    using Inr due parsed
    by (cases a; cases b; cases i; cases s; cases e) (simp_all add: dispatchEvent_def)
qed

text \<open>
  Claim C10. The unwrapping is guarded by \<^verbatim>\<open>snsEvent.Records != nil\<close> only. On a payload
  that decodes as an envelope whose record list is present and empty,
  \<^verbatim>\<open>snsEvent.Records[0]\<close> is out of range: \<^verbatim>\<open>EventHandler\<close> panics, with no fallback and
  no effect. On every other decoded envelope the index is in range.
\<close>

theorem EventHandler_empty_records_panics:
  assumes "unmarshalSNSEvent ps p = Inr snsEvent"
  shows "(Records snsEvent = Some [] \<longrightarrow>
            EventHandler ps sv (Some p) w = (Panics IndexOutOfRange, w)) \<and>
         (Records snsEvent \<noteq> Some [] \<longrightarrow>
            fst (EventHandler ps sv (Some p) w) \<noteq> Panics IndexOutOfRange)"
proof -
  have empty: "EventHandler ps sv (Some p) w = (Panics IndexOutOfRange, w)"
    if "Records snsEvent = Some []"
    using assms that by (simp add: EventHandler_def unwrapSNS_def)
  have other: "fst (EventHandler ps sv (Some p) w) \<noteq> Panics IndexOutOfRange"
    if "Records snsEvent \<noteq> Some []"
  proof (cases "Records snsEvent")
    case None
    with assms show ?thesis
      by (simp add: EventHandler_def unwrapSNS_def dispatchEvent_no_index_panic)
  next
    case (Some records)
    with that obtain first others where "records = first # others"
      by (cases records) auto
    with assms Some show ?thesis
      by (simp add: EventHandler_def unwrapSNS_def dispatchEvent_no_index_panic)
  qed
  from empty other show ?thesis by blast
qed

theorem EventHandler_empty_records_panics_witness:
  "unmarshalSNSEvent exampleParsers payloadEmptyEnvelope = Inr \<lparr>Records = Some []\<rparr> \<and>
   EventHandler exampleParsers exampleServices (Some payloadEmptyEnvelope) exampleWorld =
     (Panics IndexOutOfRange, exampleWorld) \<and>
   unmarshalSNSEvent exampleParsers payloadScheduled = Inr \<lparr>Records = None\<rparr> \<and>
   fst (EventHandler exampleParsers exampleServices (Some payloadScheduled) exampleWorld) \<noteq>
     Panics IndexOutOfRange"
  using
    EventHandler_empty_records_panics
      [where ps = exampleParsers and p = payloadEmptyEnvelope
         and snsEvent = "\<lparr>Records = Some []\<rparr>" and sv = exampleServices and w = exampleWorld]
    EventHandler_empty_records_panics
      [where ps = exampleParsers and p = payloadScheduled
         and snsEvent = "\<lparr>Records = None\<rparr>" and sv = exampleServices and w = exampleWorld]
  by (simp add: exampleParsers_def payloadStateChange_def payloadScheduled_def
      payloadNotJSON_def payloadEmptyEnvelope_def payloadEnvelopeNotJSON_def
      payloadEnvelopeTwo_def)


end
